theory Spec2Isabelle
  imports Complex_Main
begin

section \<open>The to-do API of \<^verbatim>\<open>index.py\<close>\<close>

text \<open>
  The module is a Flask application over one table (\<^verbatim>\<open>TodoItem\<close>). The handlers that
  write the table (\<^verbatim>\<open>create_todo_flask\<close>, \<^verbatim>\<open>update_todo_flask\<close>,
  \<^verbatim>\<open>delete_todo_flask\<close>) and the handler that forwards a prompt to a generative model
  (\<^verbatim>\<open>translate_text_flask\<close>) are embedded, each as a function from what it reads (the
  value of \<^verbatim>\<open>request.json\<close>, the path id, the rows of the table, and how the database
  behind \<^verbatim>\<open>engine\<close> answers during this request) to the response it returns and the
  rows it leaves behind. The listing handler, the index page and the hook that creates the
  tables before the first request are left out: every statement below is about a request
  that has reached its handler.

  A Python \<^verbatim>\<open>str\<close> is a \<open>string\<close> with one \<open>char\<close> for each code point, so that
  \<open>length\<close> is Python's \<^verbatim>\<open>len\<close>.
\<close>

subsection \<open>JSON values and what \<^verbatim>\<open>request.json\<close> gives\<close>

datatype json =
    JNull
  | JBool bool
  | JInt int
  | JFloat real
  | JStr string
  | JArr "json list"
  | JObj "(string \<times> json) list"

text \<open>
  \<^verbatim>\<open>request.json\<close> either returns the parsed body or raises an HTTP exception inside
  Flask: \<^verbatim>\<open>UnsupportedMediaType\<close> (415) when the content type is not JSON,
  \<^verbatim>\<open>BadRequest\<close> (400) when the body does not parse. The handlers read it outside
  their \<^verbatim>\<open>try\<close>, so the exception leaves the handler and Flask answers with its
  status.
\<close>

datatype http_exception = BadRequest | UnsupportedMediaType

definition code :: "http_exception \<Rightarrow> nat" where
  "code e = (case e of BadRequest \<Rightarrow> 400 | UnsupportedMediaType \<Rightarrow> 415)"

datatype request_json = Aborted http_exception | Parsed json

text \<open>A parsed JSON object is a \<^verbatim>\<open>dict\<close>: of two pairs with one key the later one stays.\<close>

definition dict_get :: "(string \<times> json) list \<Rightarrow> string \<Rightarrow> json option" where
  "dict_get kvs k = map_of (rev kvs) k"

subsection \<open>Exceptions and responses\<close>

datatype py_exception =
    TypeError
  | ValidationError
  | StoreError string
  | BackendError string

datatype date = Date int int int

text \<open>
  A \<^verbatim>\<open>TodoItem\<close> object as it is at run time (\<open>item_id\<close> is its \<^verbatim>\<open>id\<close>). The
  class declares \<^verbatim>\<open>title: str\<close> and \<^verbatim>\<open>completed: bool\<close>, but a table model does not
  validate assignments, so \<^verbatim>\<open>setattr\<close> can leave \<^verbatim>\<open>None\<close> in either; it is the
  commit that refuses such a row.
\<close>

record TodoItem =
  item_id :: "int option"
  title :: "string option"
  description :: "string option"
  completed :: "bool option"
  priority :: "string option"
  due_date :: "date option"

text \<open>
  \<open>Detail p e\<close> is the body \<^verbatim>\<open>{"detail": f"{p}{e}"}\<close>, with \<open>e = None\<close> when the
  message is the constant \<open>p\<close>. \<open>FlaskError\<close> is the page Flask writes for an exception
  that left the handler.
\<close>

datatype resp_body =
    Detail string "py_exception option"
  | Item TodoItem
  | Translated string
  | Empty
  | FlaskError

record response =
  status :: nat
  body :: resp_body

subsection \<open>The request models and their validation\<close>

text \<open>
  The field validators are those of pydantic 2 in its default (lax) mode on Python
  values: a \<^verbatim>\<open>str\<close> field takes a string only; a \<^verbatim>\<open>bool\<close> field takes a boolean,
  the integers and floats 0 and 1, and the strings listed in \<open>str_as_bool\<close>;
  \<^verbatim>\<open>Optional\<close> adds \<^verbatim>\<open>None\<close>. The validator of \<^verbatim>\<open>date\<close> is a parameter
  \<open>vd\<close> of the handlers.
\<close>

definition validate_str :: "json \<Rightarrow> string option" where
  "validate_str v = (case v of JStr s \<Rightarrow> Some s | _ \<Rightarrow> None)"

definition ascii_lower :: "char \<Rightarrow> char" where
  "ascii_lower c =
     (let n = (of_char c :: nat) in if 65 \<le> n \<and> n \<le> 90 then char_of (n + 32) else c)"

definition str_as_bool :: "string \<Rightarrow> bool option" where
  "str_as_bool s =
     (if s = ''0'' \<or> map ascii_lower s \<in> {''f'', ''n'', ''no'', ''off'', ''false''}
        then Some False
      else if s = ''1'' \<or> map ascii_lower s \<in> {''t'', ''y'', ''on'', ''yes'', ''true''}
        then Some True
      else None)"

definition validate_bool :: "json \<Rightarrow> bool option" where
  "validate_bool v =
     (case v of
        JBool b \<Rightarrow> Some b
      | JStr s \<Rightarrow> str_as_bool s
      | JInt i \<Rightarrow> (if i = 0 then Some False else if i = 1 then Some True else None)
      | JFloat x \<Rightarrow> (if x = 0 then Some False else if x = 1 then Some True else None)
      | _ \<Rightarrow> None)"

definition validate_optional :: "(json \<Rightarrow> 'a option) \<Rightarrow> json \<Rightarrow> 'a option option" where
  "validate_optional f v = (case v of JNull \<Rightarrow> Some None | _ \<Rightarrow> map_option Some (f v))"

text \<open>
  A required field: the key must be there and its value valid. The result \<open>None\<close> is a
  validation error.
\<close>

definition required_field ::
  "(json \<Rightarrow> 'a option) \<Rightarrow> (string \<times> json) list \<Rightarrow> string \<Rightarrow> 'a option" where
  "required_field f kvs k = (case dict_get kvs k of None \<Rightarrow> None | Some v \<Rightarrow> f v)"

text \<open>
  A field declared \<^verbatim>\<open>Optional[T] = None\<close>: \<open>Unset\<close> when the key is absent, \<open>Given x\<close>
  when it is present (\<open>x = None\<close> for \<^verbatim>\<open>null\<close>). pydantic records which fields were
  given (\<^verbatim>\<open>model_fields_set\<close>), and \<^verbatim>\<open>model_dump(exclude_unset=True)\<close> keeps those.
\<close>

datatype 'a supplied = Unset | Given "'a option"

definition optional_field ::
  "(json \<Rightarrow> 'a option) \<Rightarrow> (string \<times> json) list \<Rightarrow> string \<Rightarrow> 'a supplied option" where
  "optional_field f kvs k =
     (case dict_get kvs k of
        None \<Rightarrow> Some Unset
      | Some v \<Rightarrow> map_option Given (validate_optional f v))"

definition field_value :: "'a supplied \<Rightarrow> 'a option" where
  "field_value x = (case x of Unset \<Rightarrow> None | Given v \<Rightarrow> v)"

record TodoItemCreate =
  c_title :: string
  c_description :: "string option"
  c_priority :: "string option"
  c_due_date :: "date option"

record TodoItemUpdate =
  u_title :: "string supplied"
  u_description :: "string supplied"
  u_completed :: "bool supplied"
  u_priority :: "string supplied"
  u_due_date :: "date supplied"

record TranslationRequest =
  r_text :: string
  r_target_language :: string

text \<open>
  \<^verbatim>\<open>Model(**todo_data)\<close>: \<^verbatim>\<open>**\<close> raises \<^verbatim>\<open>TypeError\<close> when the value is not a
  mapping; keys that are not fields of the model are ignored.
\<close>

definition new_TodoItemCreate ::
  "(json \<Rightarrow> date option) \<Rightarrow> json \<Rightarrow> py_exception + TodoItemCreate" where
  "new_TodoItemCreate vd todo_data =
     (case todo_data of
        JObj kvs \<Rightarrow>
          (case (required_field validate_str kvs ''title'',
                 optional_field validate_str kvs ''description'',
                 optional_field validate_str kvs ''priority'',
                 optional_field vd kvs ''due_date'') of
             (Some t, Some d, Some p, Some dd) \<Rightarrow>
               Inr \<lparr>c_title = t, c_description = field_value d,
                    c_priority = field_value p, c_due_date = field_value dd\<rparr>
           | _ \<Rightarrow> Inl ValidationError)
      | _ \<Rightarrow> Inl TypeError)"

definition new_TodoItemUpdate ::
  "(json \<Rightarrow> date option) \<Rightarrow> json \<Rightarrow> py_exception + TodoItemUpdate" where
  "new_TodoItemUpdate vd todo_data =
     (case todo_data of
        JObj kvs \<Rightarrow>
          (case (optional_field validate_str kvs ''title'',
                 optional_field validate_str kvs ''description'',
                 optional_field validate_bool kvs ''completed'',
                 optional_field validate_str kvs ''priority'',
                 optional_field vd kvs ''due_date'') of
             (Some t, Some d, Some c, Some p, Some dd) \<Rightarrow>
               Inr \<lparr>u_title = t, u_description = d, u_completed = c,
                    u_priority = p, u_due_date = dd\<rparr>
           | _ \<Rightarrow> Inl ValidationError)
      | _ \<Rightarrow> Inl TypeError)"

definition new_TranslationRequest :: "json \<Rightarrow> py_exception + TranslationRequest" where
  "new_TranslationRequest request_data =
     (case request_data of
        JObj kvs \<Rightarrow>
          (case (required_field validate_str kvs ''text'',
                 required_field validate_str kvs ''target_language'') of
             (Some t, Some l) \<Rightarrow> Inr \<lparr>r_text = t, r_target_language = l\<rparr>
           | _ \<Rightarrow> Inl ValidationError)
      | _ \<Rightarrow> Inl TypeError)"

text \<open>
  \<^verbatim>\<open>TodoItem.model_validate(todo_create)\<close> reads the attributes of the
  \<^verbatim>\<open>TodoItemCreate\<close>; \<^verbatim>\<open>id\<close> and \<^verbatim>\<open>completed\<close> are not among them and take their
  defaults. The only constraint left to check is \<^verbatim>\<open>max_length=50\<close> on \<^verbatim>\<open>priority\<close>.
\<close>

definition TodoItem_model_validate :: "TodoItemCreate \<Rightarrow> py_exception + TodoItem" where
  "TodoItem_model_validate todo_create =
     (case c_priority todo_create of
        Some p \<Rightarrow>
          (if 50 < length p then Inl ValidationError
           else Inr \<lparr>item_id = None, title = Some (c_title todo_create),
                     description = c_description todo_create, completed = Some False,
                     priority = Some p, due_date = c_due_date todo_create\<rparr>)
      | None \<Rightarrow>
          Inr \<lparr>item_id = None, title = Some (c_title todo_create),
               description = c_description todo_create, completed = Some False,
               priority = None, due_date = c_due_date todo_create\<rparr>)"

text \<open>
  The loop \<^verbatim>\<open>for key, value in update_data.items(): setattr(todo, key, value)\<close>:
  every field that was given is assigned, \<^verbatim>\<open>None\<close> included, and nothing is validated
  on assignment.
\<close>

definition set_field :: "'a supplied \<Rightarrow> 'a option \<Rightarrow> 'a option" where
  "set_field x old = (case x of Unset \<Rightarrow> old | Given v \<Rightarrow> v)"

definition apply_update :: "TodoItemUpdate \<Rightarrow> TodoItem \<Rightarrow> TodoItem" where
  "apply_update todo_update todo =
     todo\<lparr>title := set_field (u_title todo_update) (title todo),
          description := set_field (u_description todo_update) (description todo),
          completed := set_field (u_completed todo_update) (completed todo),
          priority := set_field (u_priority todo_update) (priority todo),
          due_date := set_field (u_due_date todo_update) (due_date todo)\<rparr>"

subsection \<open>The table and the database behind \<^verbatim>\<open>engine\<close>\<close>

text \<open>
  The table maps a primary key to its row; \<open>next_id\<close> is the key the store gives to the
  next inserted row.
\<close>

record store =
  rows :: "int \<rightharpoonup> TodoItem"
  next_id :: int

text \<open>
  How the database answers during one request: for each call of the session the message
  of the exception it raises, if it raises; and whether the database enforces the
  declared length of a \<^verbatim>\<open>VARCHAR(50)\<close> column. SQLite never does. A database that
  does follows SQL: a longer value is refused, unless the characters beyond the first 50
  are all spaces, and then the value is cut to its first 50 characters and stored.
\<close>

record engine =
  get_error :: "string option"
  commit_error :: "string option"
  refresh_error :: "string option"
  enforces_varchar :: bool

text \<open>
  The constraints of the table that \<^verbatim>\<open>session.commit()\<close> can violate: \<^verbatim>\<open>title\<close> and
  \<^verbatim>\<open>completed\<close> are \<^verbatim>\<open>NOT NULL\<close>, \<^verbatim>\<open>priority\<close> is \<^verbatim>\<open>VARCHAR(50)\<close>.
\<close>

definition only_spaces :: "string \<Rightarrow> bool" where
  "only_spaces s = (s = replicate (length s) (CHR '' ''))"

definition too_long :: "engine \<Rightarrow> string option \<Rightarrow> bool" where
  "too_long eng p =
     (case p of
        None \<Rightarrow> False
      | Some s \<Rightarrow> enforces_varchar eng \<and> 50 < length s \<and> \<not> only_spaces (drop 50 s))"

text \<open>What the column holds once a value that is not too long has been written.\<close>

definition varchar50 :: "engine \<Rightarrow> string option \<Rightarrow> string option" where
  "varchar50 eng p = (if enforces_varchar eng then map_option (take 50) p else p)"

definition insert_error :: "engine \<Rightarrow> TodoItem \<Rightarrow> py_exception option" where
  "insert_error eng todo =
     (case commit_error eng of
        Some m \<Rightarrow> Some (StoreError m)
      | None \<Rightarrow>
          if title todo = None \<or> completed todo = None
            then Some (StoreError ''null value violates not-null constraint'')
          else if too_long eng (priority todo)
            then Some (StoreError ''value too long for type character varying(50)'')
          else None)"

text \<open>
  A row that \<^verbatim>\<open>TodoItem.model_validate\<close> returned has a priority of at most 50
  characters, which the column stores as it is. An \<^verbatim>\<open>UPDATE\<close> writes the assigned
  columns only, so only they can violate, and only an assigned priority can be cut.
\<close>

definition update_error :: "engine \<Rightarrow> TodoItemUpdate \<Rightarrow> py_exception option" where
  "update_error eng todo_update =
     (case commit_error eng of
        Some m \<Rightarrow> Some (StoreError m)
      | None \<Rightarrow>
          if u_title todo_update = Given None \<or> u_completed todo_update = Given None
            then Some (StoreError ''null value violates not-null constraint'')
          else if too_long eng (field_value (u_priority todo_update))
            then Some (StoreError ''value too long for type character varying(50)'')
          else None)"

definition written :: "engine \<Rightarrow> TodoItemUpdate \<Rightarrow> TodoItem \<Rightarrow> TodoItem" where
  "written eng todo_update todo =
     (case u_priority todo_update of
        Unset \<Rightarrow> todo
      | Given v \<Rightarrow> todo\<lparr>priority := varchar50 eng v\<rparr>)"

definition delete_error :: "engine \<Rightarrow> py_exception option" where
  "delete_error eng = map_option StoreError (commit_error eng)"

subsection \<open>The handlers\<close>

definition not_found :: response where
  "not_found = \<lparr>status = 404, body = Detail ''To-Do item not found'' None\<rparr>"

definition create_todo_flask ::
  "(json \<Rightarrow> date option) \<Rightarrow> engine \<Rightarrow> store \<Rightarrow> request_json \<Rightarrow> response \<times> store" where
  "create_todo_flask vd eng s req =
     (case req of
        Aborted e \<Rightarrow> (\<lparr>status = code e, body = FlaskError\<rparr>, s)
      | Parsed todo_data \<Rightarrow>
          (case new_TodoItemCreate vd todo_data of
             Inl e \<Rightarrow> (\<lparr>status = 400, body = Detail ''Failed to create todo: '' (Some e)\<rparr>, s)
           | Inr todo_create \<Rightarrow>
               (case TodoItem_model_validate todo_create of
                  Inl e \<Rightarrow>
                    (\<lparr>status = 400, body = Detail ''Failed to create todo: '' (Some e)\<rparr>, s)
                | Inr db_todo \<Rightarrow>
                    (case insert_error eng db_todo of
                       Some e \<Rightarrow>
                         (\<lparr>status = 400, body = Detail ''Failed to create todo: '' (Some e)\<rparr>,
                          s)
                     | None \<Rightarrow>
                         (let stored = db_todo\<lparr>item_id := Some (next_id s)\<rparr>;
                              s' = \<lparr>rows = (rows s)(next_id s \<mapsto> stored),
                                    next_id = next_id s + 1\<rparr>
                          in case refresh_error eng of
                               Some m \<Rightarrow>
                                 (\<lparr>status = 400,
                                   body = Detail ''Failed to create todo: ''
                                            (Some (StoreError m))\<rparr>, s')
                             | None \<Rightarrow> (\<lparr>status = 201, body = Item stored\<rparr>, s'))))))"

definition update_todo_flask ::
  "(json \<Rightarrow> date option) \<Rightarrow> engine \<Rightarrow> store \<Rightarrow> int \<Rightarrow> request_json \<Rightarrow> response \<times> store"
  where
  "update_todo_flask vd eng s todo_id req =
     (case req of
        Aborted e \<Rightarrow> (\<lparr>status = code e, body = FlaskError\<rparr>, s)
      | Parsed todo_data \<Rightarrow>
          (case get_error eng of
             Some m \<Rightarrow>
               (\<lparr>status = 500,
                 body = Detail ''Failed to update todo: '' (Some (StoreError m))\<rparr>, s)
           | None \<Rightarrow>
               (case rows s todo_id of
                  None \<Rightarrow> (not_found, s)
                | Some todo \<Rightarrow>
                    (case new_TodoItemUpdate vd todo_data of
                       Inl e \<Rightarrow>
                         (\<lparr>status = 500, body = Detail ''Failed to update todo: '' (Some e)\<rparr>,
                          s)
                     | Inr todo_update \<Rightarrow>
                         (case update_error eng todo_update of
                            Some e \<Rightarrow>
                              (\<lparr>status = 500,
                                body = Detail ''Failed to update todo: '' (Some e)\<rparr>, s)
                          | None \<Rightarrow>
                              (let todo' = written eng todo_update
                                             (apply_update todo_update todo);
                                   s' = s\<lparr>rows := (rows s)(todo_id \<mapsto> todo')\<rparr>
                               in case refresh_error eng of
                                    Some m \<Rightarrow>
                                      (\<lparr>status = 500,
                                        body = Detail ''Failed to update todo: ''
                                                 (Some (StoreError m))\<rparr>, s')
                                  | None \<Rightarrow> (\<lparr>status = 200, body = Item todo'\<rparr>, s')))))))"

definition delete_todo_flask :: "engine \<Rightarrow> store \<Rightarrow> int \<Rightarrow> response \<times> store" where
  "delete_todo_flask eng s todo_id =
     (case get_error eng of
        Some m \<Rightarrow>
          (\<lparr>status = 500, body = Detail ''Failed to delete todo: '' (Some (StoreError m))\<rparr>,
           s)
      | None \<Rightarrow>
          (case rows s todo_id of
             None \<Rightarrow> (not_found, s)
           | Some todo \<Rightarrow>
               (case delete_error eng of
                  Some e \<Rightarrow>
                    (\<lparr>status = 500, body = Detail ''Failed to delete todo: '' (Some e)\<rparr>, s)
                | None \<Rightarrow>
                    (\<lparr>status = 204, body = Empty\<rparr>, s\<lparr>rows := (rows s)(todo_id := None)\<rparr>))))"

subsection \<open>The translation endpoint\<close>

text \<open>
  The module sets \<^verbatim>\<open>gemini_model\<close> once, when it is imported: \<^verbatim>\<open>None\<close> when
  \<^verbatim>\<open>GOOGLE_API_KEY\<close> is missing or empty, or when configuring the client raises. The
  client is a parameter: \<open>configure key\<close> is the model that \<^verbatim>\<open>genai\<close> builds, or the
  exception it raises. A model answers a prompt with its text or raises
  (\<^verbatim>\<open>generate_content(prompt).text\<close>).
\<close>

type_synonym generative_model = "string \<Rightarrow> py_exception + string"

definition gemini_model ::
  "string option \<Rightarrow> (string \<Rightarrow> py_exception + generative_model) \<Rightarrow> generative_model option"
  where
  "gemini_model GOOGLE_API_KEY configure =
     (case GOOGLE_API_KEY of
        None \<Rightarrow> None
      | Some key \<Rightarrow>
          (if key = [] then None
           else (case configure key of Inl e \<Rightarrow> None | Inr m \<Rightarrow> Some m)))"

definition unavailable :: response where
  "unavailable =
     \<lparr>status = 503,
      body = Detail ''Translation service not available. API key might be missing or invalid.''
               None\<rparr>"

text \<open>
  The handler returns its response and the prompts it sent to the external model. The
  test of \<^verbatim>\<open>gemini_model\<close> comes before \<^verbatim>\<open>request.json\<close> is read.
\<close>

definition translate_text_flask ::
  "generative_model option \<Rightarrow> request_json \<Rightarrow> response \<times> string list" where
  "translate_text_flask gm req =
     (case gm of
        None \<Rightarrow> (unavailable, [])
      | Some generate_content \<Rightarrow>
          (case req of
             Aborted e \<Rightarrow> (\<lparr>status = code e, body = FlaskError\<rparr>, [])
           | Parsed request_data \<Rightarrow>
               (case new_TranslationRequest request_data of
                  Inl e \<Rightarrow>
                    (\<lparr>status = 500, body = Detail ''Failed to translate text: '' (Some e)\<rparr>,
                     [])
                | Inr translation_request \<Rightarrow>
                    (let prompt = ''Translate the following text into ''
                                  @ r_target_language translation_request @ '': ''
                                  @ r_text translation_request
                     in case generate_content prompt of
                          Inl e \<Rightarrow>
                            (\<lparr>status = 500,
                              body = Detail ''Failed to translate text: '' (Some e)\<rparr>,
                             [prompt])
                        | Inr translated_content \<Rightarrow>
                            (\<lparr>status = 200, body = Translated translated_content\<rparr>,
                             [prompt])))))"

text \<open>
  One process serves its requests with the \<^verbatim>\<open>gemini_model\<close> it set at import; no
  handler assigns it.
\<close>

definition translate_all ::
  "generative_model option \<Rightarrow> request_json list \<Rightarrow> (response \<times> string list) list" where
  "translate_all gm reqs = map (translate_text_flask gm) reqs"

subsection \<open>Concrete data for the scenarios\<close>

definition working :: engine where
  "working = \<lparr>get_error = None, commit_error = None, refresh_error = None,
              enforces_varchar = True\<rparr>"

definition buy_milk :: TodoItem where
  "buy_milk = \<lparr>item_id = Some 1, title = Some ''Buy milk'', description = None,
               completed = Some False, priority = None, due_date = None\<rparr>"

definition empty_table :: store where
  "empty_table = \<lparr>rows = Map.empty, next_id = 1\<rparr>"

definition one_row :: store where
  "one_row = \<lparr>rows = [1 \<mapsto> buy_milk], next_id = 2\<rparr>"

definition lenient :: engine where
  "lenient = \<lparr>get_error = None, commit_error = None, refresh_error = None,
              enforces_varchar = False\<rparr>"

definition disconnected :: engine where
  "disconnected = \<lparr>get_error = None, commit_error = Some ''connection lost'',
                   refresh_error = None, enforces_varchar = True\<rparr>"

definition long_priority :: string where
  "long_priority = replicate 51 (CHR ''x'')"

text \<open>The scenarios give no \<^verbatim>\<open>due_date\<close>; this validator takes none.\<close>

definition no_date :: "json \<Rightarrow> date option" where
  "no_date v = None"

definition echo :: generative_model where
  "echo prompt = Inr prompt"

definition configure_echo :: "string \<Rightarrow> py_exception + generative_model" where
  "configure_echo key = Inr echo"

section \<open>Properties\<close>

subsection \<open>Validation lemmas\<close>

lemma optional_field_absent:
  "dict_get kvs k = None \<Longrightarrow> optional_field f kvs k = Some Unset"
  by (simp add: optional_field_def)

lemma validate_optional_bool:
  "validate_bool v = Some b \<Longrightarrow> validate_optional validate_bool v = Some (Some b)"
  by (cases v) (simp_all add: validate_optional_def validate_bool_def)

lemma optional_field_bool:
  "dict_get kvs k = Some v \<Longrightarrow> validate_bool v = Some b \<Longrightarrow>
   optional_field validate_bool kvs k = Some (Given (Some b))"
  by (simp add: optional_field_def validate_optional_bool)

lemma new_TodoItemUpdate_empty:
  assumes "dict_get kvs ''title'' = None" "dict_get kvs ''description'' = None"
    "dict_get kvs ''completed'' = None" "dict_get kvs ''priority'' = None"
    "dict_get kvs ''due_date'' = None"
  shows "new_TodoItemUpdate vd (JObj kvs) =
         Inr \<lparr>u_title = Unset, u_description = Unset, u_completed = Unset,
              u_priority = Unset, u_due_date = Unset\<rparr>"
  using assms by (simp add: new_TodoItemUpdate_def optional_field_absent)

lemma new_TodoItemUpdate_completed:
  assumes "dict_get kvs ''title'' = None" "dict_get kvs ''description'' = None"
    "dict_get kvs ''completed'' = Some v" "validate_bool v = Some b"
    "dict_get kvs ''priority'' = None" "dict_get kvs ''due_date'' = None"
  shows "new_TodoItemUpdate vd (JObj kvs) =
         Inr \<lparr>u_title = Unset, u_description = Unset, u_completed = Given (Some b),
              u_priority = Unset, u_due_date = Unset\<rparr>"
  using assms
  by (simp add: new_TodoItemUpdate_def optional_field_absent optional_field_bool)

lemma dict_get_single: "dict_get [(k, v)] k' = (if k' = k then Some v else None)"
  by (simp add: dict_get_def)

lemma dict_get_empty: "dict_get [] k = None"
  by (simp add: dict_get_def)

subsection \<open>Updates\<close>

text \<open>
  C1. A PUT for a stored row whose body gives, of the fields of the model, only
  \<^verbatim>\<open>completed\<close> (with a value the model takes as a boolean \<open>b\<close>) answers 200 with the
  row in which \<^verbatim>\<open>completed\<close> is \<open>b\<close> and \<^verbatim>\<open>id\<close>, \<^verbatim>\<open>title\<close>, \<^verbatim>\<open>description\<close>,
  \<^verbatim>\<open>priority\<close> and \<^verbatim>\<open>due_date\<close> are what they were, and that row is the one stored
  afterwards. The database is taken to answer every call of the request.
\<close>

theorem update_only_completed:
  assumes "rows s todo_id = Some todo"
    and "get_error eng = None" and "commit_error eng = None" and "refresh_error eng = None"
    and "dict_get kvs ''completed'' = Some v" and "validate_bool v = Some b"
    and "dict_get kvs ''title'' = None" and "dict_get kvs ''description'' = None"
    and "dict_get kvs ''priority'' = None" and "dict_get kvs ''due_date'' = None"
  shows "update_todo_flask vd eng s todo_id (Parsed (JObj kvs))
           = (\<lparr>status = 200,
               body = Item \<lparr>item_id = item_id todo, title = title todo,
                            description = description todo, completed = Some b,
                            priority = priority todo, due_date = due_date todo\<rparr>\<rparr>,
              s\<lparr>rows := (rows s)(todo_id \<mapsto>
                   \<lparr>item_id = item_id todo, title = title todo,
                    description = description todo, completed = Some b,
                    priority = priority todo, due_date = due_date todo\<rparr>)\<rparr>)"
proof -
  let ?u = "\<lparr>u_title = Unset, u_description = Unset, u_completed = Given (Some b),
             u_priority = Unset, u_due_date = Unset\<rparr>"
  have parsed: "new_TodoItemUpdate vd (JObj kvs) = Inr ?u"
    using assms by (simp add: new_TodoItemUpdate_completed)
  have accepted: "update_error eng ?u = None"
    using assms by (simp add: update_error_def too_long_def field_value_def)
  have "update_todo_flask vd eng s todo_id (Parsed (JObj kvs))
          = (\<lparr>status = 200, body = Item (apply_update ?u todo)\<rparr>,
             s\<lparr>rows := (rows s)(todo_id \<mapsto> apply_update ?u todo)\<rparr>)"
    using assms parsed accepted by (simp add: update_todo_flask_def written_def Let_def)
  moreover have "apply_update ?u todo
      = \<lparr>item_id = item_id todo, title = title todo, description = description todo,
         completed = Some b, priority = priority todo, due_date = due_date todo\<rparr>"
    by (simp add: apply_update_def set_field_def)
  ultimately show ?thesis
    by simp
qed

theorem update_only_completed_witness:
  "update_todo_flask no_date working one_row 1 (Parsed (JObj [(''completed'', JBool True)]))
     = (\<lparr>status = 200,
         body = Item \<lparr>item_id = Some 1, title = Some ''Buy milk'', description = None,
                      completed = Some True, priority = None, due_date = None\<rparr>\<rparr>,
        \<lparr>rows = [1 \<mapsto> \<lparr>item_id = Some 1, title = Some ''Buy milk'', description = None,
                         completed = Some True, priority = None, due_date = None\<rparr>],
         next_id = 2\<rparr>)"
  using update_only_completed [of one_row 1 buy_milk working "[(''completed'', JBool True)]"
      "JBool True" True no_date]
  by (simp add: one_row_def working_def buy_milk_def dict_get_single validate_bool_def)

text \<open>
  C2. A PUT for a stored row whose body gives none of the fields of the model (the
  empty object in particular) answers 200 with the row as it was, and leaves the
  table as it was.
\<close>

theorem update_empty_patch:
  assumes "rows s todo_id = Some todo"
    and "get_error eng = None" and "commit_error eng = None" and "refresh_error eng = None"
    and "dict_get kvs ''title'' = None" and "dict_get kvs ''description'' = None"
    and "dict_get kvs ''completed'' = None" and "dict_get kvs ''priority'' = None"
    and "dict_get kvs ''due_date'' = None"
  shows "update_todo_flask vd eng s todo_id (Parsed (JObj kvs))
           = (\<lparr>status = 200, body = Item todo\<rparr>, s)"
proof -
  let ?u = "\<lparr>u_title = Unset, u_description = Unset, u_completed = Unset,
             u_priority = Unset, u_due_date = Unset\<rparr>"
  have parsed: "new_TodoItemUpdate vd (JObj kvs) = Inr ?u"
    using assms by (simp add: new_TodoItemUpdate_empty)
  have accepted: "update_error eng ?u = None"
    using assms by (simp add: update_error_def too_long_def field_value_def)
  have same: "apply_update ?u todo = todo"
    by (simp add: apply_update_def set_field_def)
  have "(rows s)(todo_id \<mapsto> todo) = rows s"
    using assms(1) by (simp add: map_upd_triv)
  then have "s\<lparr>rows := (rows s)(todo_id \<mapsto> todo)\<rparr> = s"
    by simp
  then show ?thesis
    using assms parsed accepted same by (simp add: update_todo_flask_def written_def Let_def)
qed

theorem update_empty_patch_witness:
  "update_todo_flask no_date working one_row 1 (Parsed (JObj []))
     = (\<lparr>status = 200, body = Item buy_milk\<rparr>, one_row)"
  by (rule update_empty_patch)
     (simp_all add: one_row_def working_def dict_get_empty)

text \<open>
  C10, as the claim states it, fails: \<^verbatim>\<open>request.json\<close> is read before the row is
  looked up and outside the \<^verbatim>\<open>try\<close>. A PUT for an id with no row whose body does not
  parse as JSON is answered by Flask with 400 and its own page, not with 404 and a detail.
\<close>

theorem update_unknown_id_unparsable:
  "update_todo_flask no_date working one_row 7 (Aborted BadRequest)
     = (\<lparr>status = 400, body = FlaskError\<rparr>, one_row)"
  by (simp add: update_todo_flask_def code_def)

text \<open>
  C10, amended. A PUT whose id has no row and whose body is read as JSON answers 404
  with a detail, whatever JSON value the body is (an object that fails validation, or no
  object at all), and leaves the table as it was: the row is looked up before the body
  is validated. The database is taken to answer the lookup.
\<close>

theorem update_unknown_id:
  assumes "rows s todo_id = None" and "get_error eng = None"
  shows "update_todo_flask vd eng s todo_id (Parsed todo_data)
           = (\<lparr>status = 404, body = Detail ''To-Do item not found'' None\<rparr>, s)"
  using assms by (simp add: update_todo_flask_def not_found_def)

theorem update_unknown_id_witness:
  "new_TodoItemUpdate no_date (JObj [(''completed'', JStr ''banana'')]) = Inl ValidationError
   \<and> update_todo_flask no_date working one_row 7
         (Parsed (JObj [(''completed'', JStr ''banana'')]))
       = (\<lparr>status = 404, body = Detail ''To-Do item not found'' None\<rparr>, one_row)"
proof -
  have "update_todo_flask no_date working one_row 7
          (Parsed (JObj [(''completed'', JStr ''banana'')]))
        = (\<lparr>status = 404, body = Detail ''To-Do item not found'' None\<rparr>, one_row)"
    by (rule update_unknown_id) (simp_all add: one_row_def working_def)
  moreover have
    "new_TodoItemUpdate no_date (JObj [(''completed'', JStr ''banana'')])
       = Inl ValidationError"
    by (simp add: new_TodoItemUpdate_def optional_field_def validate_optional_def
        validate_bool_def str_as_bool_def ascii_lower_def dict_get_single)
  ultimately show ?thesis by simp
qed

subsection \<open>Creation\<close>

lemma required_title:
  "dict_get kvs ''title'' = Some (JStr t) \<Longrightarrow> required_field validate_str kvs ''title'' = Some t"
  by (simp add: required_field_def validate_str_def)

lemma required_str_D:
  "required_field validate_str kvs k = Some t \<Longrightarrow> dict_get kvs k = Some (JStr t)"
  by (auto simp: required_field_def validate_str_def split: option.splits json.splits)

lemma new_TodoItemCreate_title:
  assumes "new_TodoItemCreate vd todo_data = Inr todo_create"
  shows "\<exists>kvs. todo_data = JObj kvs \<and> dict_get kvs ''title'' = Some (JStr (c_title todo_create))"
proof (cases todo_data)
  case (JObj kvs)
  with assms obtain t where "required_field validate_str kvs ''title'' = Some t"
    and "c_title todo_create = t"
    by (auto simp: new_TodoItemCreate_def split: option.splits)
  then show ?thesis
    using JObj by (simp add: required_str_D)
qed (use assms in \<open>simp_all add: new_TodoItemCreate_def\<close>)

lemma new_TodoItemCreate_no_title:
  assumes "\<And>t. dict_get kvs ''title'' \<noteq> Some (JStr t)"
  shows "new_TodoItemCreate vd (JObj kvs) = Inl ValidationError"
proof -
  have "required_field validate_str kvs ''title'' = None"
  proof (cases "required_field validate_str kvs ''title''")
    case (Some t)
    then show ?thesis
      using assms required_str_D by blast
  qed simp
  then show ?thesis
    by (simp add: new_TodoItemCreate_def)
qed

lemma new_TodoItemCreate_not_object:
  "(\<And>kvs. todo_data \<noteq> JObj kvs) \<Longrightarrow> new_TodoItemCreate vd todo_data = Inl TypeError"
  by (cases todo_data) (auto simp: new_TodoItemCreate_def)

lemma TodoItem_model_validate_fields:
  assumes "TodoItem_model_validate todo_create = Inr db_todo"
  shows "item_id db_todo = None" and "title db_todo = Some (c_title todo_create)"
    and "description db_todo = c_description todo_create"
    and "completed db_todo = Some False"
    and "priority db_todo = c_priority todo_create"
    and "due_date db_todo = c_due_date todo_create"
    and "\<And>p. priority db_todo = Some p \<Longrightarrow> length p \<le> 50"
  using assms
  by (auto simp: TodoItem_model_validate_def split: option.splits if_splits)

text \<open>What a 201 of the create handler says about the request and the table.\<close>

lemma create_201:
  assumes "create_todo_flask vd eng s (Parsed todo_data) = (r, s')" and "status r = 201"
  shows "\<exists>todo_create db_todo.
           new_TodoItemCreate vd todo_data = Inr todo_create
         \<and> TodoItem_model_validate todo_create = Inr db_todo
         \<and> r = \<lparr>status = 201, body = Item (db_todo\<lparr>item_id := Some (next_id s)\<rparr>)\<rparr>
         \<and> s' = \<lparr>rows = (rows s)(next_id s \<mapsto> db_todo\<lparr>item_id := Some (next_id s)\<rparr>),
                 next_id = next_id s + 1\<rparr>"
  using assms
  by (auto simp: create_todo_flask_def Let_def split: sum.splits option.splits)

text \<open>
  C3. A POST whose body gives \<^verbatim>\<open>title\<close> as a string and none of \<^verbatim>\<open>description\<close>,
  \<^verbatim>\<open>priority\<close>, \<^verbatim>\<open>due_date\<close> answers 201 with a row that has this title, is not
  completed, has no description, priority or due date, and carries the key the store
  gave it; that row is in the table afterwards. The database is taken to answer the
  commit and the refresh.
\<close>

theorem create_title_only:
  assumes "dict_get kvs ''title'' = Some (JStr t)"
    and "dict_get kvs ''description'' = None" and "dict_get kvs ''priority'' = None"
    and "dict_get kvs ''due_date'' = None"
    and "commit_error eng = None" and "refresh_error eng = None"
  shows "create_todo_flask vd eng s (Parsed (JObj kvs))
           = (\<lparr>status = 201,
               body = Item \<lparr>item_id = Some (next_id s), title = Some t, description = None,
                            completed = Some False, priority = None, due_date = None\<rparr>\<rparr>,
              \<lparr>rows = (rows s)(next_id s \<mapsto>
                   \<lparr>item_id = Some (next_id s), title = Some t, description = None,
                    completed = Some False, priority = None, due_date = None\<rparr>),
               next_id = next_id s + 1\<rparr>)"
proof -
  let ?c = "\<lparr>c_title = t, c_description = None, c_priority = None, c_due_date = None\<rparr>"
  let ?d = "\<lparr>item_id = None, title = Some t, description = None, completed = Some False,
             priority = None, due_date = None\<rparr>"
  have parsed: "new_TodoItemCreate vd (JObj kvs) = Inr ?c"
    using assms
    by (simp add: new_TodoItemCreate_def required_title optional_field_absent field_value_def)
  have valid: "TodoItem_model_validate ?c = Inr ?d"
    by (simp add: TodoItem_model_validate_def)
  have accepted: "insert_error eng ?d = None"
    using assms by (simp add: insert_error_def too_long_def)
  show ?thesis
    using assms parsed valid accepted by (simp add: create_todo_flask_def Let_def)
qed

theorem create_title_only_witness:
  "create_todo_flask no_date working empty_table (Parsed (JObj [(''title'', JStr ''Buy milk'')]))
     = (\<lparr>status = 201, body = Item buy_milk\<rparr>, one_row)"
  using create_title_only [of "[(''title'', JStr ''Buy milk'')]" "''Buy milk''" working
      no_date empty_table]
  by (simp add: dict_get_single working_def empty_table_def one_row_def buy_milk_def)

text \<open>
  C4, as the claim states it, fails: the model declares \<^verbatim>\<open>title: str\<close> with no
  minimum length, and the empty string is a string. A POST with \<^verbatim>\<open>{"title": ""}\<close>
  answers 201 and the row with the empty title is stored.
\<close>

theorem create_empty_title_accepted:
  "create_todo_flask no_date working empty_table (Parsed (JObj [(''title'', JStr [])]))
     = (\<lparr>status = 201,
         body = Item \<lparr>item_id = Some 1, title = Some [], description = None,
                      completed = Some False, priority = None, due_date = None\<rparr>\<rparr>,
        \<lparr>rows = [1 \<mapsto> \<lparr>item_id = Some 1, title = Some [], description = None,
                         completed = Some False, priority = None, due_date = None\<rparr>],
         next_id = 2\<rparr>)"
  by (simp add: create_todo_flask_def new_TodoItemCreate_def required_field_def
      optional_field_def validate_str_def field_value_def dict_get_single
      TodoItem_model_validate_def insert_error_def too_long_def working_def empty_table_def
      Let_def)

text \<open>
  C4, amended. Every POST that answers 201 gave \<^verbatim>\<open>title\<close> as a string in a JSON
  object, and the created row has that string, empty or not, as its title. A POST whose
  body is not an object, or has no \<^verbatim>\<open>title\<close>, or a \<^verbatim>\<open>title\<close> that is not a
  string, answers 400 with a detail and the table stays as it was.
\<close>

theorem create_title_boundary:
  "(status (fst (create_todo_flask vd eng s (Parsed todo_data))) = 201 \<longrightarrow>
      (\<exists>kvs t todo.
          todo_data = JObj kvs \<and> dict_get kvs ''title'' = Some (JStr t)
        \<and> body (fst (create_todo_flask vd eng s (Parsed todo_data))) = Item todo
        \<and> title todo = Some t
        \<and> rows (snd (create_todo_flask vd eng s (Parsed todo_data))) (next_id s) = Some todo))
   \<and> ((\<forall>kvs t. todo_data = JObj kvs \<longrightarrow> dict_get kvs ''title'' \<noteq> Some (JStr t)) \<longrightarrow>
      (\<exists>e. create_todo_flask vd eng s (Parsed todo_data)
             = (\<lparr>status = 400, body = Detail ''Failed to create todo: '' (Some e)\<rparr>, s)))"
proof (intro conjI impI)
  assume ok: "status (fst (create_todo_flask vd eng s (Parsed todo_data))) = 201"
  obtain r s' where run: "create_todo_flask vd eng s (Parsed todo_data) = (r, s')"
    by (cases "create_todo_flask vd eng s (Parsed todo_data)")
  with ok have "status r = 201" by simp
  from create_201 [OF run this] obtain todo_create db_todo where
    c: "new_TodoItemCreate vd todo_data = Inr todo_create"
    and d: "TodoItem_model_validate todo_create = Inr db_todo"
    and r: "r = \<lparr>status = 201, body = Item (db_todo\<lparr>item_id := Some (next_id s)\<rparr>)\<rparr>"
    and s': "s' = \<lparr>rows = (rows s)(next_id s \<mapsto> db_todo\<lparr>item_id := Some (next_id s)\<rparr>),
                   next_id = next_id s + 1\<rparr>"
    by auto
  from new_TodoItemCreate_title [OF c] obtain kvs where
    "todo_data = JObj kvs" "dict_get kvs ''title'' = Some (JStr (c_title todo_create))"
    by blast
  moreover have "title (db_todo\<lparr>item_id := Some (next_id s)\<rparr>) = Some (c_title todo_create)"
    using TodoItem_model_validate_fields(2) [OF d] by simp
  ultimately show "\<exists>kvs t todo.
          todo_data = JObj kvs \<and> dict_get kvs ''title'' = Some (JStr t)
        \<and> body (fst (create_todo_flask vd eng s (Parsed todo_data))) = Item todo
        \<and> title todo = Some t
        \<and> rows (snd (create_todo_flask vd eng s (Parsed todo_data))) (next_id s) = Some todo"
    using run r s' by auto
next
  assume none: "\<forall>kvs t. todo_data = JObj kvs \<longrightarrow> dict_get kvs ''title'' \<noteq> Some (JStr t)"
  have "\<exists>e. new_TodoItemCreate vd todo_data = Inl e"
  proof (cases "\<exists>kvs. todo_data = JObj kvs")
    case True
    then obtain kvs where "todo_data = JObj kvs" by blast
    with none show ?thesis
      using new_TodoItemCreate_no_title [of kvs vd] by auto
  next
    case False
    then show ?thesis
      using new_TodoItemCreate_not_object [of todo_data vd] by auto
  qed
  then show "\<exists>e. create_todo_flask vd eng s (Parsed todo_data)
             = (\<lparr>status = 400, body = Detail ''Failed to create todo: '' (Some e)\<rparr>, s)"
    by (auto simp: create_todo_flask_def)
qed

theorem create_title_boundary_witness:
  "status (fst (create_todo_flask no_date working empty_table
                  (Parsed (JObj [(''title'', JStr [])])))) = 201
   \<and> (\<exists>kvs t todo.
          JObj [(''title'', JStr [])] = JObj kvs \<and> dict_get kvs ''title'' = Some (JStr t)
        \<and> body (fst (create_todo_flask no_date working empty_table
                        (Parsed (JObj [(''title'', JStr [])])))) = Item todo
        \<and> title todo = Some t
        \<and> rows (snd (create_todo_flask no_date working empty_table
                        (Parsed (JObj [(''title'', JStr [])])))) (next_id empty_table)
            = Some todo)
   \<and> (\<exists>e. create_todo_flask no_date working empty_table
             (Parsed (JObj [(''title'', JNull)]))
           = (\<lparr>status = 400, body = Detail ''Failed to create todo: '' (Some e)\<rparr>,
              empty_table))"
proof -
  have accepted: "status (fst (create_todo_flask no_date working empty_table
                    (Parsed (JObj [(''title'', JStr [])])))) = 201"
    by (simp add: create_todo_flask_def new_TodoItemCreate_def required_field_def
        optional_field_def validate_str_def field_value_def dict_get_single
        TodoItem_model_validate_def insert_error_def too_long_def working_def Let_def)
  have no_title:
    "\<forall>kvs t. JObj [(''title'', JNull)] = JObj kvs \<longrightarrow> dict_get kvs ''title'' \<noteq> Some (JStr t)"
    by (auto simp: dict_get_single)
  show ?thesis
    using accepted no_title
      create_title_boundary [of no_date working empty_table "JObj [(''title'', JStr [])]"]
      create_title_boundary [of no_date working empty_table "JObj [(''title'', JNull)]"]
    by blast
qed

subsection \<open>Deletion\<close>

text \<open>
  C8. With the database answering the lookup: a DELETE for an id with no row answers
  404 with a detail and changes nothing; a DELETE for an id with a row, when the commit
  goes through, answers 204 with an empty body and leaves the table without that row and
  with every other row as it was, and on that table every PUT (whatever its JSON body)
  and every DELETE for the same id answers 404 and changes nothing.
\<close>

theorem delete_todo:
  assumes "get_error eng = None"
  shows "(rows s todo_id = None \<longrightarrow>
            delete_todo_flask eng s todo_id
              = (\<lparr>status = 404, body = Detail ''To-Do item not found'' None\<rparr>, s))
       \<and> (rows s todo_id = Some todo \<and> commit_error eng = None \<longrightarrow>
            delete_todo_flask eng s todo_id
              = (\<lparr>status = 204, body = Empty\<rparr>, s\<lparr>rows := (rows s)(todo_id := None)\<rparr>)
          \<and> rows (snd (delete_todo_flask eng s todo_id)) todo_id = None
          \<and> (\<forall>k. k \<noteq> todo_id \<longrightarrow> rows (snd (delete_todo_flask eng s todo_id)) k = rows s k)
          \<and> (\<forall>eng' vd todo_data. get_error eng' = None \<longrightarrow>
                update_todo_flask vd eng' (snd (delete_todo_flask eng s todo_id)) todo_id
                    (Parsed todo_data)
                  = (\<lparr>status = 404, body = Detail ''To-Do item not found'' None\<rparr>,
                     snd (delete_todo_flask eng s todo_id))
              \<and> delete_todo_flask eng' (snd (delete_todo_flask eng s todo_id)) todo_id
                  = (\<lparr>status = 404, body = Detail ''To-Do item not found'' None\<rparr>,
                     snd (delete_todo_flask eng s todo_id))))"
proof (intro conjI impI)
  assume "rows s todo_id = None"
  then show "delete_todo_flask eng s todo_id
              = (\<lparr>status = 404, body = Detail ''To-Do item not found'' None\<rparr>, s)"
    using assms by (simp add: delete_todo_flask_def not_found_def)
next
  assume present: "rows s todo_id = Some todo \<and> commit_error eng = None"
  let ?s' = "s\<lparr>rows := (rows s)(todo_id := None)\<rparr>"
  show run: "delete_todo_flask eng s todo_id = (\<lparr>status = 204, body = Empty\<rparr>, ?s')"
    using assms present by (simp add: delete_todo_flask_def delete_error_def)
  show "rows (snd (delete_todo_flask eng s todo_id)) todo_id = None"
    by (simp add: run)
  show "\<forall>k. k \<noteq> todo_id \<longrightarrow> rows (snd (delete_todo_flask eng s todo_id)) k = rows s k"
    by (simp add: run)
  show "\<forall>eng' vd todo_data. get_error eng' = None \<longrightarrow>
                update_todo_flask vd eng' (snd (delete_todo_flask eng s todo_id)) todo_id
                    (Parsed todo_data)
                  = (\<lparr>status = 404, body = Detail ''To-Do item not found'' None\<rparr>,
                     snd (delete_todo_flask eng s todo_id))
              \<and> delete_todo_flask eng' (snd (delete_todo_flask eng s todo_id)) todo_id
                  = (\<lparr>status = 404, body = Detail ''To-Do item not found'' None\<rparr>,
                     snd (delete_todo_flask eng s todo_id))"
    unfolding run snd_conv
    by (simp add: update_todo_flask_def delete_todo_flask_def not_found_def)
qed

theorem delete_todo_witness:
  "delete_todo_flask working one_row 7
     = (\<lparr>status = 404, body = Detail ''To-Do item not found'' None\<rparr>, one_row)
   \<and> delete_todo_flask working one_row 1
       = (\<lparr>status = 204, body = Empty\<rparr>, empty_table\<lparr>next_id := 2\<rparr>)
   \<and> update_todo_flask no_date working (snd (delete_todo_flask working one_row 1)) 1
         (Parsed (JObj [(''completed'', JBool True)]))
       = (\<lparr>status = 404, body = Detail ''To-Do item not found'' None\<rparr>,
          snd (delete_todo_flask working one_row 1))
   \<and> delete_todo_flask working (snd (delete_todo_flask working one_row 1)) 1
       = (\<lparr>status = 404, body = Detail ''To-Do item not found'' None\<rparr>,
          snd (delete_todo_flask working one_row 1))"
proof -
  have up: "get_error working = None" and ok: "commit_error working = None"
    by (simp_all add: working_def)
  have absent: "rows one_row 7 = None" and present: "rows one_row 1 = Some buy_milk"
    by (simp_all add: one_row_def)
  have same: "one_row\<lparr>rows := (rows one_row)(1 := None)\<rparr> = empty_table\<lparr>next_id := 2\<rparr>"
    by (simp add: one_row_def empty_table_def)
  have missing: "delete_todo_flask working one_row 7
      = (\<lparr>status = 404, body = Detail ''To-Do item not found'' None\<rparr>, one_row)"
    using delete_todo [OF up, of one_row 7 buy_milk] absent by blast
  have removed: "delete_todo_flask working one_row 1
      = (\<lparr>status = 204, body = Empty\<rparr>, one_row\<lparr>rows := (rows one_row)(1 := None)\<rparr>)"
    using delete_todo [OF up, of one_row 1 buy_milk] present ok by blast
  have after: "update_todo_flask no_date working (snd (delete_todo_flask working one_row 1)) 1
         (Parsed (JObj [(''completed'', JBool True)]))
       = (\<lparr>status = 404, body = Detail ''To-Do item not found'' None\<rparr>,
          snd (delete_todo_flask working one_row 1))
   \<and> delete_todo_flask working (snd (delete_todo_flask working one_row 1)) 1
       = (\<lparr>status = 404, body = Detail ''To-Do item not found'' None\<rparr>,
          snd (delete_todo_flask working one_row 1))"
    using delete_todo [OF up, of one_row 1 buy_milk] present ok up by blast
  show ?thesis
    using missing removed after same by simp
qed

subsection \<open>The cap on \<^verbatim>\<open>priority\<close>\<close>

lemma length_long_priority: "length long_priority = 51"
  by (simp add: long_priority_def)

text \<open>
  On creation the cap holds: \<^verbatim>\<open>TodoItem.model_validate\<close> checks \<^verbatim>\<open>max_length=50\<close>,
  so a row that a POST created has no priority or one of at most 50 characters.
\<close>

lemma create_priority_capped:
  assumes "create_todo_flask vd eng s (Parsed todo_data) = (r, s')" and "status r = 201"
  shows "\<exists>todo. body r = Item todo \<and> rows s' (next_id s) = Some todo
              \<and> (\<forall>p. priority todo = Some p \<longrightarrow> length p \<le> 50)"
proof -
  from create_201 [OF assms] obtain todo_create db_todo where
    d: "TodoItem_model_validate todo_create = Inr db_todo"
    and r: "r = \<lparr>status = 201, body = Item (db_todo\<lparr>item_id := Some (next_id s)\<rparr>)\<rparr>"
    and s': "s' = \<lparr>rows = (rows s)(next_id s \<mapsto> db_todo\<lparr>item_id := Some (next_id s)\<rparr>),
                   next_id = next_id s + 1\<rparr>"
    by auto
  have "\<forall>p. priority (db_todo\<lparr>item_id := Some (next_id s)\<rparr>) = Some p \<longrightarrow> length p \<le> 50"
    using TodoItem_model_validate_fields(7) [OF d] by simp
  then show ?thesis
    using r s' by simp
qed

text \<open>
  On update the handler checks nothing: \<^verbatim>\<open>TodoItemUpdate.priority\<close> has no
  \<^verbatim>\<open>max_length\<close> and \<^verbatim>\<open>setattr\<close> does not validate. A longer priority is refused
  only by a database that enforces the length of the column, when a character beyond
  the first 50 is not a space, and then with a 500.
\<close>

lemma new_TodoItemUpdate_priority:
  assumes "new_TodoItemUpdate vd (JObj kvs) = Inr todo_update"
    and "dict_get kvs ''priority'' = Some (JStr p)"
  shows "u_priority todo_update = Given (Some p)"
  using assms
  by (auto simp: new_TodoItemUpdate_def optional_field_def validate_optional_def
      validate_str_def split: option.splits)

lemma update_priority_refused:
  assumes "enforces_varchar eng" and "get_error eng = None" and "rows s todo_id = Some todo"
    and "dict_get kvs ''priority'' = Some (JStr p)" and "50 < length p"
    and "\<not> only_spaces (drop 50 p)"
  shows "\<exists>e. update_todo_flask vd eng s todo_id (Parsed (JObj kvs))
              = (\<lparr>status = 500, body = Detail ''Failed to update todo: '' (Some e)\<rparr>, s)"
proof (cases "new_TodoItemUpdate vd (JObj kvs)")
  case (Inl e)
  then show ?thesis
    using assms by (simp add: update_todo_flask_def)
next
  case (Inr todo_update)
  then have "u_priority todo_update = Given (Some p)"
    using assms(4) by (rule new_TodoItemUpdate_priority)
  then have "\<exists>e. update_error eng todo_update = Some e"
    using assms(1,5,6)
    by (auto simp: update_error_def too_long_def field_value_def split: option.splits)
  then show ?thesis
    using assms Inr by (auto simp: update_todo_flask_def)
qed

text \<open>
  When the characters beyond the first 50 are all spaces, such a database stores the first
  50 characters, and the answer is 200 with the row as stored.
\<close>

lemma update_priority_cut:
  assumes "enforces_varchar eng" and "get_error eng = None" and "commit_error eng = None"
    and "refresh_error eng = None" and "rows s todo_id = Some todo"
    and "dict_get kvs ''priority'' = Some (JStr p)" and "only_spaces (drop 50 p)"
    and "dict_get kvs ''title'' = None" and "dict_get kvs ''description'' = None"
    and "dict_get kvs ''completed'' = None" and "dict_get kvs ''due_date'' = None"
  shows "update_todo_flask vd eng s todo_id (Parsed (JObj kvs))
           = (\<lparr>status = 200, body = Item (todo\<lparr>priority := Some (take 50 p)\<rparr>)\<rparr>,
              s\<lparr>rows := (rows s)(todo_id \<mapsto> todo\<lparr>priority := Some (take 50 p)\<rparr>)\<rparr>)"
proof -
  let ?u = "\<lparr>u_title = Unset, u_description = Unset, u_completed = Unset,
             u_priority = Given (Some p), u_due_date = Unset\<rparr>"
  have parsed: "new_TodoItemUpdate vd (JObj kvs) = Inr ?u"
    using assms
    by (simp add: new_TodoItemUpdate_def optional_field_def validate_optional_def
        validate_str_def)
  have accepted: "update_error eng ?u = None"
    using assms by (simp add: update_error_def too_long_def field_value_def)
  have "written eng ?u (apply_update ?u todo) = todo\<lparr>priority := Some (take 50 p)\<rparr>"
    using assms(1) by (simp add: written_def varchar50_def apply_update_def set_field_def)
  then show ?thesis
    using assms parsed accepted by (simp add: update_todo_flask_def Let_def)
qed

text \<open>
  C5 at the failing input. The table has the row 1, the database does not enforce the
  length of the column, and the request is a PUT for 1 with a \<^verbatim>\<open>priority\<close> of 51
  characters: the answer is 200 and the row is stored with that priority. The same
  priority in a POST is refused with 400.
\<close>

theorem update_priority_unchecked:
  "length long_priority = 51
   \<and> update_todo_flask no_date lenient one_row 1
         (Parsed (JObj [(''priority'', JStr long_priority)]))
       = (\<lparr>status = 200,
           body = Item \<lparr>item_id = Some 1, title = Some ''Buy milk'', description = None,
                        completed = Some False, priority = Some long_priority,
                        due_date = None\<rparr>\<rparr>,
          \<lparr>rows = [1 \<mapsto> \<lparr>item_id = Some 1, title = Some ''Buy milk'', description = None,
                           completed = Some False, priority = Some long_priority,
                           due_date = None\<rparr>],
           next_id = 2\<rparr>)
   \<and> create_todo_flask no_date lenient empty_table
         (Parsed (JObj [(''title'', JStr ''Buy milk''), (''priority'', JStr long_priority)]))
       = (\<lparr>status = 400, body = Detail ''Failed to create todo: '' (Some ValidationError)\<rparr>,
          empty_table)"
proof (intro conjI)
  show "length long_priority = 51"
    by (rule length_long_priority)
  have patch: "new_TodoItemUpdate no_date (JObj [(''priority'', JStr long_priority)])
      = Inr \<lparr>u_title = Unset, u_description = Unset, u_completed = Unset,
             u_priority = Given (Some long_priority), u_due_date = Unset\<rparr>"
    by (simp add: new_TodoItemUpdate_def optional_field_def validate_optional_def
        validate_str_def dict_get_single)
  have accepted: "update_error lenient
      \<lparr>u_title = Unset, u_description = Unset, u_completed = Unset,
       u_priority = Given (Some long_priority), u_due_date = Unset\<rparr> = None"
    by (simp add: update_error_def too_long_def field_value_def lenient_def)
  show "update_todo_flask no_date lenient one_row 1
         (Parsed (JObj [(''priority'', JStr long_priority)]))
       = (\<lparr>status = 200,
           body = Item \<lparr>item_id = Some 1, title = Some ''Buy milk'', description = None,
                        completed = Some False, priority = Some long_priority,
                        due_date = None\<rparr>\<rparr>,
          \<lparr>rows = [1 \<mapsto> \<lparr>item_id = Some 1, title = Some ''Buy milk'', description = None,
                           completed = Some False, priority = Some long_priority,
                           due_date = None\<rparr>],
           next_id = 2\<rparr>)"
    using patch accepted
    by (simp add: update_todo_flask_def written_def varchar50_def Let_def apply_update_def
        set_field_def one_row_def
        buy_milk_def lenient_def)
  have body: "new_TodoItemCreate no_date
        (JObj [(''title'', JStr ''Buy milk''), (''priority'', JStr long_priority)])
      = Inr \<lparr>c_title = ''Buy milk'', c_description = None,
             c_priority = Some long_priority, c_due_date = None\<rparr>"
    by (simp add: new_TodoItemCreate_def required_field_def optional_field_def
        validate_optional_def validate_str_def field_value_def dict_get_def)
  have refused: "TodoItem_model_validate
        \<lparr>c_title = ''Buy milk'', c_description = None,
         c_priority = Some long_priority, c_due_date = None\<rparr> = Inl ValidationError"
    by (simp add: TodoItem_model_validate_def length_long_priority)
  show "create_todo_flask no_date lenient empty_table
         (Parsed (JObj [(''title'', JStr ''Buy milk''), (''priority'', JStr long_priority)]))
       = (\<lparr>status = 400, body = Detail ''Failed to create todo: '' (Some ValidationError)\<rparr>,
          empty_table)"
    using body refused by (simp add: create_todo_flask_def)
qed

subsection \<open>Failures of the store and of validation\<close>

text \<open>
  C6, as the claim states it, fails for creation: the create handler has one
  \<^verbatim>\<open>except Exception\<close> that answers 400, and a commit that raises ends there.
\<close>

theorem create_store_failure_is_400:
  "create_todo_flask no_date disconnected empty_table
       (Parsed (JObj [(''title'', JStr ''Buy milk'')]))
     = (\<lparr>status = 400,
         body = Detail ''Failed to create todo: '' (Some (StoreError ''connection lost''))\<rparr>,
        empty_table)"
  by (simp add: create_todo_flask_def new_TodoItemCreate_def required_field_def
      optional_field_def validate_str_def field_value_def dict_get_single
      TodoItem_model_validate_def insert_error_def disconnected_def)

text \<open>
  C6, amended. When the commit raises with message \<open>m\<close>: an update and a delete of a
  stored row answer 500 with the detail made of the handler's prefix and \<open>m\<close>; a create
  with a valid body answers 400 with such a detail. In each case the table stays as it
  was.
\<close>

theorem store_failure_status:
  assumes "commit_error eng = Some m"
  shows "(new_TodoItemCreate vd todo_data = Inr todo_create
            \<and> TodoItem_model_validate todo_create = Inr db_todo \<longrightarrow>
          create_todo_flask vd eng s (Parsed todo_data)
            = (\<lparr>status = 400,
                body = Detail ''Failed to create todo: '' (Some (StoreError m))\<rparr>, s))
       \<and> (get_error eng = None \<and> rows s todo_id = Some todo
            \<and> new_TodoItemUpdate vd patch = Inr todo_update \<longrightarrow>
          update_todo_flask vd eng s todo_id (Parsed patch)
            = (\<lparr>status = 500,
                body = Detail ''Failed to update todo: '' (Some (StoreError m))\<rparr>, s))
       \<and> (get_error eng = None \<and> rows s todo_id = Some todo \<longrightarrow>
          delete_todo_flask eng s todo_id
            = (\<lparr>status = 500,
                body = Detail ''Failed to delete todo: '' (Some (StoreError m))\<rparr>, s))"
proof (intro conjI impI)
  assume "new_TodoItemCreate vd todo_data = Inr todo_create
            \<and> TodoItem_model_validate todo_create = Inr db_todo"
  moreover have "insert_error eng db_todo = Some (StoreError m)"
    using assms by (simp add: insert_error_def)
  ultimately show "create_todo_flask vd eng s (Parsed todo_data)
            = (\<lparr>status = 400,
                body = Detail ''Failed to create todo: '' (Some (StoreError m))\<rparr>, s)"
    by (simp add: create_todo_flask_def)
next
  assume "get_error eng = None \<and> rows s todo_id = Some todo
            \<and> new_TodoItemUpdate vd patch = Inr todo_update"
  moreover have "update_error eng todo_update = Some (StoreError m)"
    using assms by (simp add: update_error_def)
  ultimately show "update_todo_flask vd eng s todo_id (Parsed patch)
            = (\<lparr>status = 500,
                body = Detail ''Failed to update todo: '' (Some (StoreError m))\<rparr>, s)"
    by (simp add: update_todo_flask_def)
next
  assume "get_error eng = None \<and> rows s todo_id = Some todo"
  moreover have "delete_error eng = Some (StoreError m)"
    using assms by (simp add: delete_error_def)
  ultimately show "delete_todo_flask eng s todo_id
            = (\<lparr>status = 500,
                body = Detail ''Failed to delete todo: '' (Some (StoreError m))\<rparr>, s)"
    by (simp add: delete_todo_flask_def)
qed

theorem store_failure_status_witness:
  "create_todo_flask no_date disconnected empty_table
       (Parsed (JObj [(''title'', JStr ''Buy milk'')]))
     = (\<lparr>status = 400,
         body = Detail ''Failed to create todo: '' (Some (StoreError ''connection lost''))\<rparr>,
        empty_table)
   \<and> update_todo_flask no_date disconnected one_row 1
         (Parsed (JObj [(''completed'', JBool True)]))
       = (\<lparr>status = 500,
           body = Detail ''Failed to update todo: '' (Some (StoreError ''connection lost''))\<rparr>,
          one_row)
   \<and> delete_todo_flask disconnected one_row 1
       = (\<lparr>status = 500,
           body = Detail ''Failed to delete todo: '' (Some (StoreError ''connection lost''))\<rparr>,
          one_row)"
proof -
  have down: "commit_error disconnected = Some ''connection lost''"
    and up: "get_error disconnected = None"
    by (simp_all add: disconnected_def)
  have row: "rows one_row 1 = Some buy_milk"
    by (simp add: one_row_def)
  have body: "new_TodoItemCreate no_date (JObj [(''title'', JStr ''Buy milk'')])
      = Inr \<lparr>c_title = ''Buy milk'', c_description = None, c_priority = None,
             c_due_date = None\<rparr>"
    by (simp add: new_TodoItemCreate_def required_field_def optional_field_def
        validate_str_def field_value_def dict_get_single)
  have valid: "TodoItem_model_validate
        \<lparr>c_title = ''Buy milk'', c_description = None, c_priority = None, c_due_date = None\<rparr>
      = Inr \<lparr>item_id = None, title = Some ''Buy milk'', description = None,
             completed = Some False, priority = None, due_date = None\<rparr>"
    by (simp add: TodoItem_model_validate_def)
  have patch: "new_TodoItemUpdate no_date (JObj [(''completed'', JBool True)])
      = Inr \<lparr>u_title = Unset, u_description = Unset, u_completed = Given (Some True),
             u_priority = Unset, u_due_date = Unset\<rparr>"
    by (simp add: new_TodoItemUpdate_def optional_field_def validate_optional_def
        validate_bool_def dict_get_single)
  show ?thesis
    using store_failure_status [OF down, where vd = no_date and s = one_row and todo_id = 1
        and todo = buy_milk and patch = "JObj [(''completed'', JBool True)]"]
      store_failure_status [OF down, where vd = no_date and s = empty_table
        and todo_data = "JObj [(''title'', JStr ''Buy milk'')]"]
      up row body valid patch
    by simp
qed

text \<open>
  C7, as the claim states it, fails for updates: the update handler has one
  \<^verbatim>\<open>except Exception\<close> that answers 500, and the validation error of
  \<^verbatim>\<open>TodoItemUpdate(**todo_data)\<close> ends there. A PUT for the stored row 1 with
  \<^verbatim>\<open>{"completed": "banana"}\<close> answers 500.
\<close>

theorem update_invalid_body_is_500:
  "update_todo_flask no_date working one_row 1
       (Parsed (JObj [(''completed'', JStr ''banana'')]))
     = (\<lparr>status = 500, body = Detail ''Failed to update todo: '' (Some ValidationError)\<rparr>,
        one_row)"
  by (simp add: update_todo_flask_def new_TodoItemUpdate_def optional_field_def
      validate_optional_def validate_bool_def str_as_bool_def ascii_lower_def
      dict_get_single working_def one_row_def)

text \<open>
  C7, amended. A JSON body that fails validation against the typed request model gets
  the status of the one \<^verbatim>\<open>except\<close> of its handler, with a detail, and changes nothing:
  400 from POST /api/todos (for the request model and for the table model), 500 from
  PUT /api/todos/{id} on a stored row, 500 from POST /api/translate when a model is
  configured.
\<close>

theorem validation_failure_status:
  "(new_TodoItemCreate vd todo_data = Inl e_request \<longrightarrow>
      create_todo_flask vd eng s (Parsed todo_data)
        = (\<lparr>status = 400, body = Detail ''Failed to create todo: '' (Some e_request)\<rparr>, s))
   \<and> (new_TodoItemCreate vd todo_data' = Inr todo_create
        \<and> TodoItem_model_validate todo_create = Inl e_table \<longrightarrow>
      create_todo_flask vd eng s (Parsed todo_data')
        = (\<lparr>status = 400, body = Detail ''Failed to create todo: '' (Some e_table)\<rparr>, s))
   \<and> (get_error eng = None \<and> rows s todo_id = Some todo
        \<and> new_TodoItemUpdate vd patch = Inl e_patch \<longrightarrow>
      update_todo_flask vd eng s todo_id (Parsed patch)
        = (\<lparr>status = 500, body = Detail ''Failed to update todo: '' (Some e_patch)\<rparr>, s))
   \<and> (new_TranslationRequest request_data = Inl e_text \<longrightarrow>
      translate_text_flask (Some gm) (Parsed request_data)
        = (\<lparr>status = 500, body = Detail ''Failed to translate text: '' (Some e_text)\<rparr>, []))"
  by (simp add: create_todo_flask_def update_todo_flask_def translate_text_flask_def)

theorem validation_failure_status_witness:
  "create_todo_flask no_date working empty_table (Parsed (JObj []))
     = (\<lparr>status = 400, body = Detail ''Failed to create todo: '' (Some ValidationError)\<rparr>,
        empty_table)
   \<and> create_todo_flask no_date working empty_table
         (Parsed (JObj [(''title'', JStr ''Buy milk''), (''priority'', JStr long_priority)]))
       = (\<lparr>status = 400, body = Detail ''Failed to create todo: '' (Some ValidationError)\<rparr>,
          empty_table)
   \<and> update_todo_flask no_date working one_row 1
         (Parsed (JObj [(''completed'', JStr ''banana'')]))
       = (\<lparr>status = 500, body = Detail ''Failed to update todo: '' (Some ValidationError)\<rparr>,
          one_row)
   \<and> translate_text_flask (Some echo) (Parsed (JArr []))
       = (\<lparr>status = 500, body = Detail ''Failed to translate text: '' (Some TypeError)\<rparr>, [])"
proof -
  have up: "get_error working = None"
    by (simp add: working_def)
  have row: "rows one_row 1 = Some buy_milk"
    by (simp add: one_row_def)
  have no_title: "new_TodoItemCreate no_date (JObj []) = Inl ValidationError"
    by (simp add: new_TodoItemCreate_def required_field_def dict_get_empty)
  have body: "new_TodoItemCreate no_date
        (JObj [(''title'', JStr ''Buy milk''), (''priority'', JStr long_priority)])
      = Inr \<lparr>c_title = ''Buy milk'', c_description = None,
             c_priority = Some long_priority, c_due_date = None\<rparr>"
    by (simp add: new_TodoItemCreate_def required_field_def optional_field_def
        validate_optional_def validate_str_def field_value_def dict_get_def)
  have refused: "TodoItem_model_validate
        \<lparr>c_title = ''Buy milk'', c_description = None,
         c_priority = Some long_priority, c_due_date = None\<rparr> = Inl ValidationError"
    by (simp add: TodoItem_model_validate_def length_long_priority)
  have banana: "new_TodoItemUpdate no_date (JObj [(''completed'', JStr ''banana'')])
      = Inl ValidationError"
    by (simp add: new_TodoItemUpdate_def optional_field_def validate_optional_def
        validate_bool_def str_as_bool_def ascii_lower_def dict_get_single)
  have list: "new_TranslationRequest (JArr []) = Inl TypeError"
    by (simp add: new_TranslationRequest_def)
  show ?thesis
    using validation_failure_status [where vd = no_date and eng = working
        and s = empty_table and todo_data = "JObj []" and e_request = ValidationError
        and todo_data' = "JObj [(''title'', JStr ''Buy milk''),
                                (''priority'', JStr long_priority)]"
        and e_table = ValidationError and request_data = "JArr []" and e_text = TypeError
        and gm = echo]
      validation_failure_status [where vd = no_date and eng = working and s = one_row
        and todo_id = 1 and todo = buy_milk
        and patch = "JObj [(''completed'', JStr ''banana'')]" and e_patch = ValidationError]
      up row no_title body refused banana list
    by simp
qed

subsection \<open>Translation without a credential\<close>

text \<open>
  C9. When \<^verbatim>\<open>GOOGLE_API_KEY\<close> is absent as the module is imported, \<^verbatim>\<open>gemini_model\<close>
  is \<^verbatim>\<open>None\<close> whatever the client library would do; then the handler answers every
  request, whatever \<^verbatim>\<open>request.json\<close> would give, with 503 and the detail, and sends
  no prompt; and so does the process for every list of requests it serves, since the
  handler only reads \<^verbatim>\<open>gemini_model\<close>.
\<close>

theorem translate_unconfigured:
  "gemini_model None configure = None
   \<and> translate_text_flask (gemini_model None configure) req
       = (\<lparr>status = 503,
           body = Detail
             ''Translation service not available. API key might be missing or invalid.''
             None\<rparr>, [])
   \<and> translate_all (gemini_model None configure) reqs
       = replicate (length reqs)
           (\<lparr>status = 503,
             body = Detail
               ''Translation service not available. API key might be missing or invalid.''
               None\<rparr>, [])"
proof -
  let ?r = "(\<lparr>status = 503,
             body = Detail
               ''Translation service not available. API key might be missing or invalid.''
               None\<rparr>, [] :: string list)"
  have unset: "gemini_model None configure = None"
    by (simp add: gemini_model_def)
  have one: "translate_text_flask None q = ?r" for q
    by (simp add: translate_text_flask_def unavailable_def)
  have "map (translate_text_flask None) reqs = replicate (length reqs) ?r"
    by (induction reqs) (simp_all add: one)
  then show ?thesis
    by (simp add: unset one translate_all_def)
qed

theorem translate_unconfigured_witness:
  "translate_all (gemini_model None configure_echo)
       [Parsed (JObj [(''text'', JStr ''hello''), (''target_language'', JStr ''French'')]),
        Aborted BadRequest]
     = [(\<lparr>status = 503,
          body = Detail
            ''Translation service not available. API key might be missing or invalid.''
            None\<rparr>, []),
        (\<lparr>status = 503,
          body = Detail
            ''Translation service not available. API key might be missing or invalid.''
            None\<rparr>, [])]"
proof -
  let ?reqs =
    "[Parsed (JObj [(''text'', JStr ''hello''), (''target_language'', JStr ''French'')]),
      Aborted BadRequest]"
  have "translate_all (gemini_model None configure_echo) ?reqs
      = replicate (length ?reqs)
          (\<lparr>status = 503,
            body = Detail
              ''Translation service not available. API key might be missing or invalid.''
              None\<rparr>, [])"
    using translate_unconfigured [of configure_echo "Aborted BadRequest" ?reqs] by blast
  then show ?thesis
    by simp
qed

end
